theory Spec2Isabelle
  imports Complex_Main "HOL-Library.Sublist"
begin

section \<open>Census B18105 annotation pipeline (\<open>fetch_census_data.py\<close>)\<close>

text \<open>
  The program reads a table of census tracts, asks the Census API once for fifteen
  variables of table B18105, derives six columns per tract, left-joins them onto the
  input table, prints a summary, writes the annotated table and runs data quality checks.

  The data frames of the program are lists of rows, a row is a record with one field per
  column. A numeric cell that pandas holds as \<open>NaN\<close> (a null or unparseable cell after
  \<open>pd.to_numeric(..., errors='coerce')\<close>, or the fill of a left join) is \<open>None\<close>;
  a count is a mathematical integer (the estimates of the table are whole numbers, far
  from the range where 64-bit arithmetic wraps or loses digits). The percentage columns
  are floating-point columns: a value of them is a rational number, one of the two
  infinities, or \<open>NaN\<close>, and finite arithmetic on them is exact (the rounding error of
  the binary format is not part of the model).

  A run starts from the input table as \<open>pd.read_csv\<close> returns it and from what the
  one HTTP request meets; a response that is not an error carries a JSON table with the
  requested columns.
\<close>

subsection \<open>Numeric cells\<close>

datatype float64 = Finite rat | PosInf | NegInf | NaN

text \<open>\<open>a + b\<close> on two count columns: \<open>NaN\<close> in either operand gives \<open>NaN\<close>.\<close>

fun add_col :: "int option \<Rightarrow> int option \<Rightarrow> int option" where
  "add_col (Some a) (Some b) = Some (a + b)"
| "add_col _ _ = None"

text \<open>
  \<open>a / b\<close> on two count columns (true division of pandas): a zero divisor raises
  nothing, it gives an infinity with the sign of the dividend, and \<open>NaN\<close> for \<open>0 / 0\<close>.
\<close>

fun div_col :: "int option \<Rightarrow> int option \<Rightarrow> float64" where
  "div_col (Some a) (Some b) =
     (if b = 0 then (if 0 < a then PosInf else if a < 0 then NegInf else NaN)
      else Finite (of_int a / of_int b))"
| "div_col _ _ = NaN"

text \<open>\<open>x * 100\<close> on a floating-point column.\<close>

fun times_100 :: "float64 \<Rightarrow> float64" where
  "times_100 (Finite q) = Finite (q * 100)"
| "times_100 x = x"

text \<open>Rounding to the nearest integer, a tie going to the even neighbour.\<close>

definition rint :: "rat \<Rightarrow> int" where
  "rint q =
     (let f = \<lfloor>q\<rfloor>; d = q - of_int f
      in if d < 1 / 2 then f
         else if 1 / 2 < d then f + 1
         else if even f then f else f + 1)"

text \<open>\<open>.round(2)\<close>: scale by 100, round to the nearest integer, scale back.\<close>

fun round_2 :: "float64 \<Rightarrow> float64" where
  "round_2 (Finite q) = Finite (of_int (rint (q * 100)) / 100)"
| "round_2 x = x"

text \<open>\<open>.fillna(0)\<close> replaces \<open>NaN\<close> and nothing else.\<close>

fun fillna_0 :: "float64 \<Rightarrow> float64" where
  "fillna_0 NaN = Finite 0"
| "fillna_0 x = x"

subsection \<open>Rows\<close>

text \<open>A row of \<open>generated/tracts_within_1mile.csv\<close>; \<open>GEOID\<close> is read as text.\<close>

record tract_row =
  GEOID :: string
  NAMELSAD :: string
  other_columns :: "string list"

text \<open>
  A data row of the API response after the numeric coercion of the fifteen variables.
  The column \<open>GEOID\<close> that \<open>fetch_b18105_data\<close> adds is \<open>state + county + tract\<close>.
\<close>

record api_row =
  NAME :: string
  state :: string
  county :: string
  tract :: string
  B18105_001E :: "int option"
  B18105_004E :: "int option"
  B18105_007E :: "int option"
  B18105_010E :: "int option"
  B18105_013E :: "int option"
  B18105_016E :: "int option"
  B18105_020E :: "int option"
  B18105_023E :: "int option"
  B18105_026E :: "int option"
  B18105_029E :: "int option"
  B18105_032E :: "int option"
  B18105_012E :: "int option"
  B18105_015E :: "int option"
  B18105_028E :: "int option"
  B18105_031E :: "int option"

definition row_GEOID :: "api_row \<Rightarrow> string" where
  "row_GEOID r = state r @ county r @ tract r"

text \<open>The six derived columns, and a row of \<open>metrics_df\<close>: its key and the six columns.\<close>

record metrics =
  total_pop_5plus :: "int option"
  total_amb_diff :: "int option"
  total_amb_diff_pct :: float64
  pop_65plus :: "int option"
  pop_65plus_amb_diff :: "int option"
  pop_65plus_amb_diff_pct :: float64

record metrics_row = metrics +
  metrics_GEOID :: string

subsection \<open>\<open>calculate_metrics\<close>\<close>

definition sum_total_amb_diff :: "api_row \<Rightarrow> int option" where
  "sum_total_amb_diff r =
     add_col (add_col (add_col (add_col (add_col (add_col (add_col (add_col (add_col
       (B18105_004E r) (B18105_007E r)) (B18105_010E r))
       (B18105_013E r)) (B18105_016E r))
       (B18105_020E r)) (B18105_023E r)) (B18105_026E r))
       (B18105_029E r)) (B18105_032E r)"

definition sum_pop_65plus :: "api_row \<Rightarrow> int option" where
  "sum_pop_65plus r =
     add_col (add_col (add_col (B18105_012E r) (B18105_015E r))
       (B18105_028E r)) (B18105_031E r)"

definition sum_pop_65plus_amb_diff :: "api_row \<Rightarrow> int option" where
  "sum_pop_65plus_amb_diff r =
     add_col (add_col (add_col (B18105_013E r) (B18105_016E r))
       (B18105_029E r)) (B18105_032E r)"

definition percentage :: "int option \<Rightarrow> int option \<Rightarrow> float64" where
  "percentage count denominator =
     fillna_0 (round_2 (times_100 (div_col count denominator)))"

definition calculate_metrics_row :: "api_row \<Rightarrow> metrics_row" where
  "calculate_metrics_row r =
     \<lparr> total_pop_5plus = B18105_001E r,
       total_amb_diff = sum_total_amb_diff r,
       total_amb_diff_pct = percentage (sum_total_amb_diff r) (B18105_001E r),
       pop_65plus = sum_pop_65plus r,
       pop_65plus_amb_diff = sum_pop_65plus_amb_diff r,
       pop_65plus_amb_diff_pct = percentage (sum_pop_65plus_amb_diff r) (sum_pop_65plus r),
       metrics_GEOID = row_GEOID r \<rparr>"

definition calculate_metrics :: "api_row list \<Rightarrow> metrics_row list" where
  "calculate_metrics df = map calculate_metrics_row df"

subsection \<open>\<open>fetch_b18105_data\<close>\<close>

definition CENSUS_API_BASE :: string where
  "CENSUS_API_BASE = ''https://api.census.gov/data/2023/acs/acs5''"

definition variables :: "string list" where
  "variables =
     [''B18105_001E'',
      ''B18105_004E'', ''B18105_007E'', ''B18105_010E'', ''B18105_013E'', ''B18105_016E'',
      ''B18105_020E'', ''B18105_023E'', ''B18105_026E'', ''B18105_029E'', ''B18105_032E'',
      ''B18105_012E'', ''B18105_015E'',
      ''B18105_028E'', ''B18105_031E'']"

text \<open>\<open>sep.join(xs)\<close>.\<close>

fun join :: "string \<Rightarrow> string list \<Rightarrow> string" where
  "join sep [] = []"
| "join sep [x] = x"
| "join sep (x # y # ys) = x @ sep @ join sep (y # ys)"

definition api_url :: "string \<Rightarrow> string \<Rightarrow> string" where
  "api_url state_fips county_fips =
     CENSUS_API_BASE @ ''?get=NAME,'' @ join '','' variables @
     ''&for=tract:*&in=state:'' @ state_fips @ ''&in=county:'' @ county_fips"

text \<open>
  What the one request meets: \<open>requests.get\<close> raises (no connection, a timeout, ...),
  or a response arrives with a status code and, as its JSON body, a table of data rows.
\<close>

datatype http_outcome = Request_failed | Response nat "api_row list"

text \<open>\<open>response.raise_for_status()\<close> raises for the client and server error codes.\<close>

definition raise_for_status :: "nat \<Rightarrow> bool" where
  "raise_for_status status \<longleftrightarrow> 400 \<le> status \<and> status < 600"

text \<open>\<open>df[df['GEOID'].isin(tract_geoids)]\<close>\<close>

definition filter_to_tracts :: "string list \<Rightarrow> api_row list \<Rightarrow> api_row list" where
  "filter_to_tracts tract_geoids df = filter (\<lambda>r. row_GEOID r \<in> set tract_geoids) df"

subsection \<open>The left join\<close>

text \<open>A row of \<open>annotated_df\<close>: the columns of the input row and the six derived columns.\<close>

record annotated_row = metrics +
  input_columns :: tract_row

definition matched :: "tract_row \<Rightarrow> metrics_row \<Rightarrow> annotated_row" where
  "matched t m =
     \<lparr> total_pop_5plus = total_pop_5plus m,
       total_amb_diff = total_amb_diff m,
       total_amb_diff_pct = total_amb_diff_pct m,
       pop_65plus = pop_65plus m,
       pop_65plus_amb_diff = pop_65plus_amb_diff m,
       pop_65plus_amb_diff_pct = pop_65plus_amb_diff_pct m,
       input_columns = t \<rparr>"

definition unmatched :: "tract_row \<Rightarrow> annotated_row" where
  "unmatched t =
     \<lparr> total_pop_5plus = None,
       total_amb_diff = None,
       total_amb_diff_pct = NaN,
       pop_65plus = None,
       pop_65plus_amb_diff = None,
       pop_65plus_amb_diff_pct = NaN,
       input_columns = t \<rparr>"

text \<open>
  \<open>tracts_df.merge(metrics_df, on='GEOID', how='left')\<close>: the rows of the left table in
  their order, each once per row of the right table with its key (in the right table's
  order), and once with the right columns \<open>NaN\<close> when no row has its key.
\<close>

definition join_row :: "tract_row \<Rightarrow> metrics_row list \<Rightarrow> annotated_row list" where
  "join_row t metrics_df =
     (case filter (\<lambda>m. metrics_GEOID m = GEOID t) metrics_df of
        [] \<Rightarrow> [unmatched t]
      | hits \<Rightarrow> map (matched t) hits)"

fun merge_left :: "tract_row list \<Rightarrow> metrics_row list \<Rightarrow> annotated_row list" where
  "merge_left [] metrics_df = []"
| "merge_left (t # tracts_df) metrics_df = join_row t metrics_df @ merge_left tracts_df metrics_df"

subsection \<open>Data quality checks\<close>

text \<open>Comparisons of cells: a comparison with \<open>NaN\<close> is false.\<close>

fun lt_0 :: "int option \<Rightarrow> bool" where
  "lt_0 (Some v) = (v < 0)"
| "lt_0 None = False"

fun gt_col :: "int option \<Rightarrow> int option \<Rightarrow> bool" where
  "gt_col (Some a) (Some b) = (b < a)"
| "gt_col _ _ = False"

fun gt_100 :: "float64 \<Rightarrow> bool" where
  "gt_100 (Finite q) = (100 < q)"
| "gt_100 PosInf = True"
| "gt_100 _ = False"

definition numeric_cols :: "(string \<times> (annotated_row \<Rightarrow> int option)) list" where
  "numeric_cols =
     [(''total_pop_5plus'', total_pop_5plus), (''total_amb_diff'', total_amb_diff),
      (''pop_65plus'', pop_65plus), (''pop_65plus_amb_diff'', pop_65plus_amb_diff)]"

text \<open>\<open>if cond.any(): errors.append(message)\<close>\<close>

definition append_if_any :: "(annotated_row \<Rightarrow> bool) \<Rightarrow> string \<Rightarrow> annotated_row list \<Rightarrow> string list" where
  "append_if_any cond message df = (if list_ex cond df then [message] else [])"

definition negative_errors :: "annotated_row list \<Rightarrow> string list" where
  "negative_errors df =
     concat (map (\<lambda>(col, get).
       append_if_any (\<lambda>r. lt_0 (get r)) (''ERROR: Negative values found in '' @ col) df)
       numeric_cols)"

definition data_quality_errors :: "annotated_row list \<Rightarrow> string list" where
  "data_quality_errors df =
     negative_errors df @
     append_if_any (\<lambda>r. gt_col (total_amb_diff r) (total_pop_5plus r))
       ''ERROR: Total ambulatory difficulty exceeds total population'' df @
     append_if_any (\<lambda>r. gt_col (pop_65plus_amb_diff r) (pop_65plus r))
       ''ERROR: 65+ ambulatory difficulty exceeds 65+ population'' df @
     append_if_any (\<lambda>r. gt_col (pop_65plus r) (total_pop_5plus r))
       ''ERROR: 65+ population exceeds total population'' df @
     append_if_any (\<lambda>r. gt_100 (total_amb_diff_pct r))
       ''ERROR: Total ambulatory difficulty percentage exceeds 100%'' df @
     append_if_any (\<lambda>r. gt_100 (pop_65plus_amb_diff_pct r))
       ''ERROR: 65+ ambulatory difficulty percentage exceeds 100%'' df"

subsection \<open>\<open>main\<close>: the run as a trace of effects\<close>

text \<open>
  What a run does to the outside, in order. \<open>Print\<close> is a line of fixed text on the
  standard output (line breaks and the check mark left out); the other print events carry
  what the line is formatted from. The three lines of a column's minimum, maximum and mean
  are one event that carries the column.
\<close>

datatype event =
    Print string
  | Print_found nat
  | Print_tracts "string list"
  | Print_fetching string string
  | Print_url string
  | Http_get string
  | Print_fetched nat
  | Print_stderr_error_fetching
  | Print_warning_missing nat "(string \<times> string) list"
  | Print_count_statistics string "int option list"
  | Print_pct_statistics string "float64 list"
  | Print_head "annotated_row list"
  | To_csv "annotated_row list"
  | Print_errors "string list"

text \<open>
  How a run ends: \<open>main\<close> returns, \<open>sys.exit(code)\<close> is called, or an exception
  that nothing catches ends the process.
\<close>

datatype run_end = Returned | Sys_exit nat | Uncaught string

fun exit_status :: "run_end \<Rightarrow> nat" where
  "exit_status Returned = 0"
| "exit_status (Sys_exit code) = code"
| "exit_status (Uncaught exn) = 1"

definition fetch_b18105_data ::
  "string list \<Rightarrow> http_outcome \<Rightarrow> event list \<times> (run_end + api_row list)" where
  "fetch_b18105_data tract_geoids outcome =
     (case tract_geoids of
        [] \<Rightarrow> ([], Inl (Uncaught ''IndexError''))
      | first_geoid # _ \<Rightarrow>
          let state_fips = take 2 first_geoid;
              county_fips = take 3 (drop 2 first_geoid);
              url = api_url state_fips county_fips;
              request = [Print_fetching state_fips county_fips, Print_url url, Http_get url]
          in case outcome of
               Request_failed \<Rightarrow>
                 (request @ [Print_stderr_error_fetching], Inl (Sys_exit 1))
             | Response status data \<Rightarrow>
                 if raise_for_status status
                 then (request @ [Print_stderr_error_fetching], Inl (Sys_exit 1))
                 else
                   let df = filter_to_tracts tract_geoids data
                   in (request @ [Print_fetched (length df)], Inr df))"

definition summary_statistics :: "annotated_row list \<Rightarrow> event list" where
  "summary_statistics annotated_df =
     [Print ''=== Summary Statistics ==='',
      Print_count_statistics ''Total Population 5+:'' (map total_pop_5plus annotated_df),
      Print_count_statistics ''Total with Ambulatory Difficulty:'' (map total_amb_diff annotated_df),
      Print_pct_statistics ''Percentage with Ambulatory Difficulty:''
        (map total_amb_diff_pct annotated_df),
      Print_count_statistics ''Population 65+:'' (map pop_65plus annotated_df),
      Print_count_statistics ''Population 65+ with Ambulatory Difficulty:''
        (map pop_65plus_amb_diff annotated_df),
      Print_pct_statistics ''Percentage 65+ with Ambulatory Difficulty:''
        (map pop_65plus_amb_diff_pct annotated_df)]"

definition missing_warning :: "annotated_row list \<Rightarrow> event list" where
  "missing_warning annotated_df =
     (let missing = filter (\<lambda>r. total_pop_5plus r = None) annotated_df
      in if 0 < length missing
         then [Print_warning_missing (length missing)
                 (map (\<lambda>r. (GEOID (input_columns r), NAMELSAD (input_columns r))) missing)]
         else [])"

definition data_quality_checks :: "annotated_row list \<Rightarrow> event list \<times> run_end" where
  "data_quality_checks annotated_df =
     (let errors = data_quality_errors annotated_df
      in if errors \<noteq> []
         then ([Print ''=== Data Quality Checks ==='', Print_errors errors], Sys_exit 1)
         else ([Print ''=== Data Quality Checks ==='',
                Print ''All data quality checks passed!'',
                Print ''No errors found in the data''], Returned))"

definition main :: "tract_row list \<Rightarrow> http_outcome \<Rightarrow> event list \<times> run_end" where
  "main tracts_df outcome =
     (let reading =
            [Print ''Reading generated/tracts_within_1mile.csv...'',
             Print_found (length tracts_df),
             Print_tracts (map GEOID tracts_df),
             Print ''Fetching Census B18105 data...''];
          (fetching, fetched) = fetch_b18105_data (map GEOID tracts_df) outcome
      in case fetched of
           Inl stop \<Rightarrow> (reading @ fetching, stop)
         | Inr census_df \<Rightarrow>
             let metrics_df = calculate_metrics census_df;
                 annotated_df = merge_left tracts_df metrics_df;
                 (checking, stop) = data_quality_checks annotated_df
             in (reading @ fetching @
                 [Print ''Calculating metrics...'', Print ''Merging data...''] @
                 missing_warning annotated_df @
                 summary_statistics annotated_df @
                 [Print ''=== First 3 rows of annotated data ==='',
                  Print_head (take 3 annotated_df),
                  To_csv annotated_df,
                  Print ''Saved annotated data to generated/tracts_within_1mile_annotated.csv''] @
                 checking,
                 stop))"

text \<open>
  The table that \<open>main\<close> annotates, writes and checks, from the input table and the
  data rows of the response.
\<close>

definition annotated_table :: "tract_row list \<Rightarrow> api_row list \<Rightarrow> annotated_row list" where
  "annotated_table tracts_df data =
     merge_left tracts_df (calculate_metrics (filter_to_tracts (map GEOID tracts_df) data))"

text \<open>The request fails: it raises, or its status code makes \<open>raise_for_status\<close> raise.\<close>

fun http_failure :: "http_outcome \<Rightarrow> bool" where
  "http_failure Request_failed = True"
| "http_failure (Response status data) = raise_for_status status"

text \<open>
  The data quality checks as a table, in the order of the code: the message of a check
  and the condition under which a row violates it.
\<close>

definition checks :: "(string \<times> (annotated_row \<Rightarrow> bool)) list" where
  "checks =
     [(''ERROR: Negative values found in total_pop_5plus'', \<lambda>r. lt_0 (total_pop_5plus r)),
      (''ERROR: Negative values found in total_amb_diff'', \<lambda>r. lt_0 (total_amb_diff r)),
      (''ERROR: Negative values found in pop_65plus'', \<lambda>r. lt_0 (pop_65plus r)),
      (''ERROR: Negative values found in pop_65plus_amb_diff'',
         \<lambda>r. lt_0 (pop_65plus_amb_diff r)),
      (''ERROR: Total ambulatory difficulty exceeds total population'',
         \<lambda>r. gt_col (total_amb_diff r) (total_pop_5plus r)),
      (''ERROR: 65+ ambulatory difficulty exceeds 65+ population'',
         \<lambda>r. gt_col (pop_65plus_amb_diff r) (pop_65plus r)),
      (''ERROR: 65+ population exceeds total population'',
         \<lambda>r. gt_col (pop_65plus r) (total_pop_5plus r)),
      (''ERROR: Total ambulatory difficulty percentage exceeds 100%'',
         \<lambda>r. gt_100 (total_amb_diff_pct r)),
      (''ERROR: 65+ ambulatory difficulty percentage exceeds 100%'',
         \<lambda>r. gt_100 (pop_65plus_amb_diff_pct r))]"

text \<open>Observations on a trace.\<close>

fun is_Print_warning_missing :: "event \<Rightarrow> bool" where
  "is_Print_warning_missing (Print_warning_missing n rows) = True"
| "is_Print_warning_missing _ = False"


fun is_To_csv :: "event \<Rightarrow> bool" where
  "is_To_csv (To_csv df) = True"
| "is_To_csv _ = False"

fun is_Http_get :: "event \<Rightarrow> bool" where
  "is_Http_get (Http_get url) = True"
| "is_Http_get _ = False"

fun is_Print_errors :: "event \<Rightarrow> bool" where
  "is_Print_errors (Print_errors errors) = True"
| "is_Print_errors _ = False"

text \<open>The events of the data quality checks: their heading and their verdict.\<close>

fun is_quality_check :: "event \<Rightarrow> bool" where
  "is_quality_check (Print_errors errors) = True"
| "is_quality_check (Print line) =
     (line = ''=== Data Quality Checks ==='' \<or>
      line = ''All data quality checks passed!'' \<or>
      line = ''No errors found in the data'')"
| "is_quality_check _ = False"

text \<open>The messages the data quality checks can append, in the order of the checks.\<close>

definition all_messages :: "string list" where
  "all_messages =
     [''ERROR: Negative values found in total_pop_5plus'',
      ''ERROR: Negative values found in total_amb_diff'',
      ''ERROR: Negative values found in pop_65plus'',
      ''ERROR: Negative values found in pop_65plus_amb_diff'',
      ''ERROR: Total ambulatory difficulty exceeds total population'',
      ''ERROR: 65+ ambulatory difficulty exceeds 65+ population'',
      ''ERROR: 65+ population exceeds total population'',
      ''ERROR: Total ambulatory difficulty percentage exceeds 100%'',
      ''ERROR: 65+ ambulatory difficulty percentage exceeds 100%'']"

subsection \<open>Conditions on rows, and sample rows\<close>





text \<open>
  Tract 06075010800 with a population of 1000, 150 of them with the difficulty, 200 of
  them aged 65 or more, 40 of these with the difficulty.
\<close>

definition example_row :: api_row where
  "example_row =
     \<lparr> NAME = ''Census Tract 108'', state = ''06'', county = ''075'', tract = ''010800'',
       B18105_001E = Some 1000,
       B18105_004E = Some 5, B18105_007E = Some 10, B18105_010E = Some 40,
       B18105_013E = Some 8, B18105_016E = Some 12,
       B18105_020E = Some 5, B18105_023E = Some 10, B18105_026E = Some 40,
       B18105_029E = Some 9, B18105_032E = Some 11,
       B18105_012E = Some 50, B18105_015E = Some 40,
       B18105_028E = Some 60, B18105_031E = Some 50 \<rparr>"

text \<open>
  The same tract with a population of 0 in the universe variable and in the four 65+
  totals, the counts with the difficulty as before.
\<close>

definition zero_population_row :: api_row where
  "zero_population_row =
     example_row \<lparr> B18105_001E := Some 0, B18105_012E := Some 0, B18105_015E := Some 0,
       B18105_028E := Some 0, B18105_031E := Some 0 \<rparr>"

text \<open>The row of the input table for that tract.\<close>

definition example_tract :: tract_row where
  "example_tract =
     \<lparr> GEOID = ''06075010800'', NAMELSAD = ''Census Tract 108'', other_columns = [] \<rparr>"

text \<open>A tract of the input table that the response has no row for.\<close>

definition other_tract :: tract_row where
  "other_tract =
     \<lparr> GEOID = ''06075010900'', NAMELSAD = ''Census Tract 109'', other_columns = [] \<rparr>"

text \<open>
  A response row for that tract with negative cells: a universe of -5, one person aged
  5 to 17 and -2 aged 65 to 74 with the difficulty, -4 men aged 65 to 74.
\<close>

definition negative_row :: api_row where
  "negative_row =
     \<lparr> NAME = ''Census Tract 108'', state = ''06'', county = ''075'', tract = ''010800'',
       B18105_001E = Some (- 5),
       B18105_004E = Some 1, B18105_007E = Some 0, B18105_010E = Some 0,
       B18105_013E = Some (- 2), B18105_016E = Some 0,
       B18105_020E = Some 0, B18105_023E = Some 0, B18105_026E = Some 0,
       B18105_029E = Some 0, B18105_032E = Some 0,
       B18105_012E = Some (- 4), B18105_015E = Some 0,
       B18105_028E = Some 0, B18105_031E = Some 0 \<rparr>"

text \<open>
  A response row for that tract with 50 people of 65 to 74 with the difficulty among 40
  people of that age.
\<close>

definition senior_excess_row :: api_row where
  "senior_excess_row =
     \<lparr> NAME = ''Census Tract 108'', state = ''06'', county = ''075'', tract = ''010800'',
       B18105_001E = Some 1000,
       B18105_004E = Some 0, B18105_007E = Some 0, B18105_010E = Some 0,
       B18105_013E = Some 50, B18105_016E = Some 0,
       B18105_020E = Some 0, B18105_023E = Some 0, B18105_026E = Some 0,
       B18105_029E = Some 0, B18105_032E = Some 0,
       B18105_012E = Some 40, B18105_015E = Some 0,
       B18105_028E = Some 0, B18105_031E = Some 0 \<rparr>"

section \<open>Properties\<close>

subsection \<open>Cells and percentages\<close>

lemma add_col_None_iff: "add_col a b = None \<longleftrightarrow> a = None \<or> b = None"
  by (cases a; cases b) simp_all

lemma rint_of_int: "rint (of_int n) = n"
  by (simp add: rint_def)

lemma rint_numeral: "rint (numeral n) = numeral n"
  using rint_of_int [of "numeral n"] by simp



lemma percentage_None: "percentage None d = Finite 0" "percentage c None = Finite 0"
  by (cases c; simp add: percentage_def)+

lemma percentage_Some:
  "percentage (Some c) (Some d) =
     (if d = 0 then (if 0 < c then PosInf else if c < 0 then NegInf else Finite 0)
      else Finite (of_int (rint (of_int c / of_int d * 100 * 100)) / 100))"
  by (simp add: percentage_def)




subsection \<open>\<open>calculate_metrics\<close>\<close>

lemma metrics_sel:
  "total_pop_5plus (calculate_metrics_row r) = B18105_001E r"
  "total_amb_diff (calculate_metrics_row r) = sum_total_amb_diff r"
  "total_amb_diff_pct (calculate_metrics_row r) = percentage (sum_total_amb_diff r) (B18105_001E r)"
  "pop_65plus (calculate_metrics_row r) = sum_pop_65plus r"
  "pop_65plus_amb_diff (calculate_metrics_row r) = sum_pop_65plus_amb_diff r"
  "pop_65plus_amb_diff_pct (calculate_metrics_row r) =
     percentage (sum_pop_65plus_amb_diff r) (sum_pop_65plus r)"
  "metrics_GEOID (calculate_metrics_row r) = row_GEOID r"
  by (simp_all add: calculate_metrics_row_def)



lemma example_row_sums:
  "B18105_001E example_row = Some 1000"
  "sum_total_amb_diff example_row = Some 150"
  "sum_pop_65plus example_row = Some 200"
  "sum_pop_65plus_amb_diff example_row = Some 40"
  by (simp_all add: example_row_def sum_total_amb_diff_def sum_pop_65plus_def
      sum_pop_65plus_amb_diff_def)











text \<open>
  Claim C2: a row whose population of 5 years and over is 0 has the percentage 0, and so
  has the 65+ percentage when the 65+ population is 0. The code sets the percentage to
  0 when the quotient is \<open>NaN\<close> (0 / 0, or an undefined operand: \<open>percentage_None\<close>,
  \<open>percentage_Some\<close>). With a population of 0 and a non-zero count with the
  difficulty the division gives an infinity, which \<open>.fillna(0)\<close> does not replace:
  both percentages of the row below are infinite, not 0.
\<close>

theorem zero_population_percentage_infinite:
  "total_pop_5plus (calculate_metrics_row zero_population_row) = Some 0 \<and>
   total_amb_diff (calculate_metrics_row zero_population_row) = Some 150 \<and>
   total_amb_diff_pct (calculate_metrics_row zero_population_row) = PosInf \<and>
   pop_65plus (calculate_metrics_row zero_population_row) = Some 0 \<and>
   pop_65plus_amb_diff (calculate_metrics_row zero_population_row) = Some 40 \<and>
   pop_65plus_amb_diff_pct (calculate_metrics_row zero_population_row) = PosInf"
  by (simp add: metrics_sel zero_population_row_def example_row_def sum_total_amb_diff_def
      sum_pop_65plus_def sum_pop_65plus_amb_diff_def percentage_Some)

lemma sum_total_None:
  "None \<in> set [B18105_004E r, B18105_007E r, B18105_010E r, B18105_013E r, B18105_016E r,
      B18105_020E r, B18105_023E r, B18105_026E r, B18105_029E r, B18105_032E r]
   \<Longrightarrow> sum_total_amb_diff r = None"
  by (auto simp add: sum_total_amb_diff_def add_col_None_iff)

lemma sum_pop_None:
  "None \<in> set [B18105_012E r, B18105_015E r, B18105_028E r, B18105_031E r]
   \<Longrightarrow> sum_pop_65plus r = None"
  by (auto simp add: sum_pop_65plus_def add_col_None_iff)

lemma sum_senior_None:
  "None \<in> set [B18105_013E r, B18105_016E r, B18105_029E r, B18105_032E r]
   \<Longrightarrow> sum_pop_65plus_amb_diff r = None"
  by (auto simp add: sum_pop_65plus_amb_diff_def add_col_None_iff)

lemma percentage_not_NaN: "percentage c d \<noteq> NaN"
  by (cases c; cases d) (simp_all add: percentage_None percentage_Some)

text \<open>
  Claim C7. For every raw-variable row, a count one of whose summands is undefined is
  left undefined (\<open>None\<close>, not 0) by \<open>calculate_metrics\<close>, and so is the universe when
  its variable is undefined; only the percentage computed from an undefined count or
  denominator is set to 0, and no percentage is left \<open>NaN\<close>. The function is a function
  of the row alone: it reads and changes nothing else.
\<close>

theorem undefined_counts_stay_undefined:
  "(B18105_001E r = None \<longrightarrow>
      total_pop_5plus (calculate_metrics_row r) = None \<and>
      total_amb_diff_pct (calculate_metrics_row r) = Finite 0) \<and>
   (None \<in> set [B18105_004E r, B18105_007E r, B18105_010E r, B18105_013E r, B18105_016E r,
       B18105_020E r, B18105_023E r, B18105_026E r, B18105_029E r, B18105_032E r] \<longrightarrow>
      total_amb_diff (calculate_metrics_row r) = None \<and>
      total_amb_diff_pct (calculate_metrics_row r) = Finite 0) \<and>
   (None \<in> set [B18105_012E r, B18105_015E r, B18105_028E r, B18105_031E r] \<longrightarrow>
      pop_65plus (calculate_metrics_row r) = None \<and>
      pop_65plus_amb_diff_pct (calculate_metrics_row r) = Finite 0) \<and>
   (None \<in> set [B18105_013E r, B18105_016E r, B18105_029E r, B18105_032E r] \<longrightarrow>
      pop_65plus_amb_diff (calculate_metrics_row r) = None \<and>
      pop_65plus_amb_diff_pct (calculate_metrics_row r) = Finite 0) \<and>
   total_amb_diff_pct (calculate_metrics_row r) \<noteq> NaN \<and>
   pop_65plus_amb_diff_pct (calculate_metrics_row r) \<noteq> NaN"
proof -
  have a: "B18105_001E r = None \<longrightarrow>
      total_pop_5plus (calculate_metrics_row r) = None \<and>
      total_amb_diff_pct (calculate_metrics_row r) = Finite 0"
    by (simp add: metrics_sel percentage_None)
  have b: "None \<in> set [B18105_004E r, B18105_007E r, B18105_010E r, B18105_013E r, B18105_016E r,
       B18105_020E r, B18105_023E r, B18105_026E r, B18105_029E r, B18105_032E r] \<longrightarrow>
      total_amb_diff (calculate_metrics_row r) = None \<and>
      total_amb_diff_pct (calculate_metrics_row r) = Finite 0"
    using sum_total_None [of r] by (simp only: metrics_sel) (simp add: percentage_None)
  have c: "None \<in> set [B18105_012E r, B18105_015E r, B18105_028E r, B18105_031E r] \<longrightarrow>
      pop_65plus (calculate_metrics_row r) = None \<and>
      pop_65plus_amb_diff_pct (calculate_metrics_row r) = Finite 0"
    using sum_pop_None [of r] by (simp only: metrics_sel) (simp add: percentage_None)
  have d: "None \<in> set [B18105_013E r, B18105_016E r, B18105_029E r, B18105_032E r] \<longrightarrow>
      pop_65plus_amb_diff (calculate_metrics_row r) = None \<and>
      pop_65plus_amb_diff_pct (calculate_metrics_row r) = Finite 0"
    using sum_senior_None [of r] by (simp only: metrics_sel) (simp add: percentage_None)
  have e: "total_amb_diff_pct (calculate_metrics_row r) \<noteq> NaN"
    "pop_65plus_amb_diff_pct (calculate_metrics_row r) \<noteq> NaN"
    by (simp_all add: metrics_sel percentage_not_NaN)
  from a b c d e show ?thesis by blast
qed

theorem undefined_counts_stay_undefined_witness:
  "B18105_013E (example_row \<lparr> B18105_013E := None \<rparr>) = None \<and>
   total_pop_5plus (calculate_metrics_row (example_row \<lparr> B18105_013E := None \<rparr>)) = Some 1000 \<and>
   total_amb_diff (calculate_metrics_row (example_row \<lparr> B18105_013E := None \<rparr>)) = None \<and>
   total_amb_diff_pct (calculate_metrics_row (example_row \<lparr> B18105_013E := None \<rparr>)) = Finite 0 \<and>
   pop_65plus (calculate_metrics_row (example_row \<lparr> B18105_013E := None \<rparr>)) = Some 200 \<and>
   pop_65plus_amb_diff (calculate_metrics_row (example_row \<lparr> B18105_013E := None \<rparr>)) = None \<and>
   pop_65plus_amb_diff_pct (calculate_metrics_row (example_row \<lparr> B18105_013E := None \<rparr>)) = Finite 0"
  using undefined_counts_stay_undefined [of "example_row \<lparr> B18105_013E := None \<rparr>"]
  by (simp add: metrics_sel example_row_def sum_pop_65plus_def percentage_None)


subsection \<open>The left join\<close>

lemma length_join_row:
  "length (join_row t ms) = max 1 (length (filter (\<lambda>m. metrics_GEOID m = GEOID t) ms))"
  by (simp add: join_row_def split: list.splits)

lemma input_columns_join_row:
  "map input_columns (join_row t ms) = replicate (length (join_row t ms)) t"
  by (auto simp add: join_row_def matched_def unmatched_def map_replicate_const split: list.splits
      intro!: replicate_eqI)

text \<open>
  Claim C9. The left join keeps the order of the input table: the input rows that the
  rows of the annotated table carry are the rows of the input table in their order,
  each as often as the metrics table has rows with its key, and once when it has none.
\<close>

theorem merge_left_keeps_order:
  "map input_columns (merge_left tracts_df metrics_df) =
     concat (map (\<lambda>t. replicate
       (max 1 (length (filter (\<lambda>m. metrics_GEOID m = GEOID t) metrics_df))) t) tracts_df)"
  by (induction tracts_df) (simp_all add: input_columns_join_row length_join_row)

lemma filter_key_distinct:
  "distinct (map metrics_GEOID ms) \<Longrightarrow>
     length (filter (\<lambda>m. metrics_GEOID m = k) ms) \<le> 1"
  by (induction ms) (auto simp add: filter_empty_conv image_iff)

lemma join_row_distinct:
  assumes "distinct (map metrics_GEOID ms)"
  shows "length (join_row t ms) = 1"
  using filter_key_distinct [OF assms, of "GEOID t"] by (simp add: length_join_row)

lemma join_row_miss:
  "GEOID t \<notin> metrics_GEOID ` set ms \<Longrightarrow> join_row t ms = [unmatched t]"
proof -
  assume "GEOID t \<notin> metrics_GEOID ` set ms"
  then have "filter (\<lambda>m. metrics_GEOID m = GEOID t) ms = []"
    by (force simp add: filter_empty_conv)
  then show ?thesis by (simp add: join_row_def)
qed

lemma merge_left_distinct:
  assumes "distinct (map metrics_GEOID ms)"
  shows "length (merge_left ts ms) = length ts"
    and "map input_columns (merge_left ts ms) = ts"
  using join_row_distinct [OF assms]
  by (induction ts) (simp_all add: input_columns_join_row)

lemma merge_left_nth_miss:
  assumes "distinct (map metrics_GEOID ms)" "i < length ts"
    "GEOID (ts ! i) \<notin> metrics_GEOID ` set ms"
  shows "merge_left ts ms ! i = unmatched (ts ! i)"
  using assms(2,3)
proof (induction ts arbitrary: i)
  case Nil
  then show ?case by simp
next
  case (Cons t ts)
  have one: "length (join_row t ms) = 1" using join_row_distinct [OF assms(1)] .
  show ?case
  proof (cases i)
    case 0
    with Cons.prems show ?thesis by (simp add: join_row_miss)
  next
    case (Suc j)
    with Cons one show ?thesis by (simp add: nth_append)
  qed
qed

subsection \<open>Data quality checks\<close>

lemma data_quality_errors_unfold:
  "data_quality_errors df =
     append_if_any (\<lambda>r. lt_0 (total_pop_5plus r))
       ''ERROR: Negative values found in total_pop_5plus'' df @
     append_if_any (\<lambda>r. lt_0 (total_amb_diff r))
       ''ERROR: Negative values found in total_amb_diff'' df @
     append_if_any (\<lambda>r. lt_0 (pop_65plus r))
       ''ERROR: Negative values found in pop_65plus'' df @
     append_if_any (\<lambda>r. lt_0 (pop_65plus_amb_diff r))
       ''ERROR: Negative values found in pop_65plus_amb_diff'' df @
     append_if_any (\<lambda>r. gt_col (total_amb_diff r) (total_pop_5plus r))
       ''ERROR: Total ambulatory difficulty exceeds total population'' df @
     append_if_any (\<lambda>r. gt_col (pop_65plus_amb_diff r) (pop_65plus r))
       ''ERROR: 65+ ambulatory difficulty exceeds 65+ population'' df @
     append_if_any (\<lambda>r. gt_col (pop_65plus r) (total_pop_5plus r))
       ''ERROR: 65+ population exceeds total population'' df @
     append_if_any (\<lambda>r. gt_100 (total_amb_diff_pct r))
       ''ERROR: Total ambulatory difficulty percentage exceeds 100%'' df @
     append_if_any (\<lambda>r. gt_100 (pop_65plus_amb_diff_pct r))
       ''ERROR: 65+ ambulatory difficulty percentage exceeds 100%'' df"
  by (simp add: data_quality_errors_def negative_errors_def numeric_cols_def)

lemma subseq_append_if_any: "subseq (append_if_any c m df) [m]"
  by (simp add: append_if_any_def)

lemma subseq_step:
  "subseq ys ms \<Longrightarrow> subseq (append_if_any c m df @ ys) (m # ms)"
  using list_emb_append_mono [OF subseq_append_if_any, of ys ms c m df] by simp

lemma subseq_errors: "subseq (data_quality_errors df) all_messages"
  unfolding data_quality_errors_unfold all_messages_def
  by (intro subseq_step) (rule subseq_append_if_any)

lemma distinct_all_messages: "distinct all_messages"
  by (simp add: all_messages_def)

lemma append_if_any_twice: "append_if_any c m (df @ df) = append_if_any c m df"
  by (simp add: append_if_any_def list_ex_iff)

lemma data_quality_errors_checks:
  "data_quality_errors df = map fst (filter (\<lambda>(message, cond). list_ex cond df) checks)"
  by (simp add: data_quality_errors_unfold checks_def append_if_any_def)

lemma example_GEOIDs:
  "row_GEOID negative_row = ''06075010800''"
  "row_GEOID senior_excess_row = ''06075010800''"
  "row_GEOID example_row = ''06075010800''"
  "GEOID example_tract = ''06075010800''"
  by (simp_all add: row_GEOID_def negative_row_def senior_excess_row_def example_row_def
      example_tract_def)

lemma negative_row_sums:
  "B18105_001E negative_row = Some (- 5)"
  "sum_total_amb_diff negative_row = Some (- 1)"
  "sum_pop_65plus negative_row = Some (- 4)"
  "sum_pop_65plus_amb_diff negative_row = Some (- 2)"
  by (simp_all add: negative_row_def sum_total_amb_diff_def sum_pop_65plus_def
      sum_pop_65plus_amb_diff_def)

lemma senior_excess_row_sums:
  "B18105_001E senior_excess_row = Some 1000"
  "sum_total_amb_diff senior_excess_row = Some 50"
  "sum_pop_65plus senior_excess_row = Some 40"
  "sum_pop_65plus_amb_diff senior_excess_row = Some 50"
  by (simp_all add: senior_excess_row_def sum_total_amb_diff_def sum_pop_65plus_def
      sum_pop_65plus_amb_diff_def)

lemma negative_metrics:
  "calculate_metrics_row negative_row =
     \<lparr> total_pop_5plus = Some (- 5), total_amb_diff = Some (- 1), total_amb_diff_pct = Finite 20,
       pop_65plus = Some (- 4), pop_65plus_amb_diff = Some (- 2),
       pop_65plus_amb_diff_pct = Finite 50, metrics_GEOID = ''06075010800'' \<rparr>"
  by (simp add: calculate_metrics_row_def example_GEOIDs negative_row_sums percentage_Some
      rint_numeral)

lemma senior_excess_metrics:
  "calculate_metrics_row senior_excess_row =
     \<lparr> total_pop_5plus = Some 1000, total_amb_diff = Some 50, total_amb_diff_pct = Finite 5,
       pop_65plus = Some 40, pop_65plus_amb_diff = Some 50,
       pop_65plus_amb_diff_pct = Finite 125, metrics_GEOID = ''06075010800'' \<rparr>"
  by (simp add: calculate_metrics_row_def example_GEOIDs senior_excess_row_sums percentage_Some
      rint_numeral)

lemma negative_table:
  "annotated_table [example_tract] [negative_row] =
     [\<lparr> total_pop_5plus = Some (- 5), total_amb_diff = Some (- 1), total_amb_diff_pct = Finite 20,
        pop_65plus = Some (- 4), pop_65plus_amb_diff = Some (- 2),
        pop_65plus_amb_diff_pct = Finite 50, input_columns = example_tract \<rparr>]"
  by (simp add: annotated_table_def filter_to_tracts_def calculate_metrics_def example_GEOIDs
      negative_metrics join_row_def matched_def)

lemma senior_excess_table:
  "annotated_table [example_tract] [senior_excess_row] =
     [\<lparr> total_pop_5plus = Some 1000, total_amb_diff = Some 50, total_amb_diff_pct = Finite 5,
        pop_65plus = Some 40, pop_65plus_amb_diff = Some 50,
        pop_65plus_amb_diff_pct = Finite 125, input_columns = example_tract \<rparr>]"
  by (simp add: annotated_table_def filter_to_tracts_def calculate_metrics_def example_GEOIDs
      senior_excess_metrics join_row_def matched_def)

lemma negative_errors_list:
  "data_quality_errors (annotated_table [example_tract] [negative_row]) =
     [''ERROR: Negative values found in total_pop_5plus'',
      ''ERROR: Negative values found in total_amb_diff'',
      ''ERROR: Negative values found in pop_65plus'',
      ''ERROR: Negative values found in pop_65plus_amb_diff'',
      ''ERROR: Total ambulatory difficulty exceeds total population'',
      ''ERROR: 65+ ambulatory difficulty exceeds 65+ population'',
      ''ERROR: 65+ population exceeds total population'']"
  by (simp add: negative_table data_quality_errors_unfold append_if_any_def)

lemma senior_excess_errors_list:
  "data_quality_errors (annotated_table [example_tract] [senior_excess_row]) =
     [''ERROR: 65+ ambulatory difficulty exceeds 65+ population'',
      ''ERROR: 65+ ambulatory difficulty percentage exceeds 100%'']"
  by (simp add: senior_excess_table data_quality_errors_unfold append_if_any_def)

text \<open>
  Claim C10, as the code has it. The checks append at most one message each, however
  many rows violate them, but the check for negative values is made for each of the four
  count columns with a message of its own: the error list is a subsequence of the nine
  messages, so it has at most 9 messages, none twice, and it names checks (and for
  negative values the column), not rows.
\<close>

theorem at_most_one_message_per_check:
  "subseq (data_quality_errors df) all_messages \<and>
   length all_messages = 9 \<and>
   length (data_quality_errors df) \<le> 9 \<and>
   distinct (data_quality_errors df) \<and>
   data_quality_errors (df @ df) = data_quality_errors df"
proof -
  have len: "length all_messages = 9" by (simp add: all_messages_def)
  have "length (data_quality_errors df) \<le> length all_messages"
    using subseq_errors by (rule list_emb_length)
  then have le: "length (data_quality_errors df) \<le> 9" using len by simp
  have "data_quality_errors df \<in> set (subseqs all_messages)"
    using subseq_errors by simp
  then have d: "distinct (data_quality_errors df)"
    using distinct_all_messages by (rule subseqs_distinctD)
  have twice: "data_quality_errors (df @ df) = data_quality_errors df"
    by (simp only: data_quality_errors_unfold append_if_any_twice)
  from subseq_errors len le d twice show ?thesis by blast
qed

text \<open>
  One row with four negative counts that also break the three containment checks gives
  seven messages, more than six.
\<close>

theorem seven_messages_counterexample:
  "length (data_quality_errors (annotated_table [example_tract] [negative_row])) = 7 \<and>
   \<not> length (data_quality_errors (annotated_table [example_tract] [negative_row])) \<le> 6"
  by (simp add: negative_errors_list)

subsection \<open>The run\<close>

lemma missing_warning_events:
  "\<not> list_ex is_quality_check (missing_warning df)"
  "\<not> list_ex is_To_csv (missing_warning df)"
  "\<not> list_ex is_Http_get (missing_warning df)"
  "\<not> list_ex is_Print_errors (missing_warning df)"
  by (simp_all add: missing_warning_def Let_def)

lemma summary_statistics_events:
  "\<not> list_ex is_quality_check (summary_statistics df)"
  "\<not> list_ex is_To_csv (summary_statistics df)"
  "\<not> list_ex is_Http_get (summary_statistics df)"
  "\<not> list_ex is_Print_errors (summary_statistics df)"
  by (simp_all add: summary_statistics_def)

lemma data_quality_checks_eq:
  "data_quality_checks df =
     (if data_quality_errors df = []
      then ([Print ''=== Data Quality Checks ==='',
             Print ''All data quality checks passed!'',
             Print ''No errors found in the data''], Returned)
      else ([Print ''=== Data Quality Checks ==='', Print_errors (data_quality_errors df)],
            Sys_exit 1))"
  by (simp add: data_quality_checks_def Let_def)

lemma data_quality_checks_events:
  "fst (data_quality_checks df) \<noteq> []"
  "is_quality_check (hd (fst (data_quality_checks df)))"
  "\<not> list_ex is_To_csv (fst (data_quality_checks df))"
  "\<not> list_ex is_Http_get (fst (data_quality_checks df))"
  "list_ex is_Print_errors (fst (data_quality_checks df)) \<longleftrightarrow> data_quality_errors df \<noteq> []"
  "snd (data_quality_checks df) = (if data_quality_errors df = [] then Returned else Sys_exit 1)"
  by (simp_all add: data_quality_checks_eq)

lemma main_no_tracts: "main [] outcome =
  ([Print ''Reading generated/tracts_within_1mile.csv...'', Print_found 0, Print_tracts [],
    Print ''Fetching Census B18105 data...''], Uncaught ''IndexError'')"
  by (simp add: main_def fetch_b18105_data_def)

lemma main_failure:
  assumes "http_failure outcome"
  shows "\<exists>before. main (t # ts) outcome =
           (before @ [Http_get (api_url (take 2 (GEOID t)) (take 3 (drop 2 (GEOID t)))),
              Print_stderr_error_fetching], Sys_exit 1) \<and>
         \<not> list_ex is_quality_check before \<and> \<not> list_ex is_To_csv before \<and>
         \<not> list_ex is_Http_get before \<and> \<not> list_ex is_Print_errors before"
proof -
  let ?url = "api_url (take 2 (GEOID t)) (take 3 (drop 2 (GEOID t)))"
  let ?before = "[Print ''Reading generated/tracts_within_1mile.csv...'',
    Print_found (length (t # ts)), Print_tracts (map GEOID (t # ts)),
    Print ''Fetching Census B18105 data...'',
    Print_fetching (take 2 (GEOID t)) (take 3 (drop 2 (GEOID t))), Print_url ?url]"
  have "main (t # ts) outcome = (?before @ [Http_get ?url, Print_stderr_error_fetching], Sys_exit 1)"
    using assms by (cases outcome) (simp_all add: main_def fetch_b18105_data_def Let_def)
  moreover have "\<not> list_ex is_quality_check ?before" "\<not> list_ex is_To_csv ?before"
    "\<not> list_ex is_Http_get ?before" "\<not> list_ex is_Print_errors ?before"
    by simp_all
  ultimately show ?thesis by blast
qed

lemma main_success:
  assumes "\<not> raise_for_status status"
  shows "\<exists>before. main (t # ts) (Response status data) =
           (before @ [Print ''Merging data...''] @
            missing_warning (annotated_table (t # ts) data) @
            summary_statistics (annotated_table (t # ts) data) @
            [Print ''=== First 3 rows of annotated data ==='',
             Print_head (take 3 (annotated_table (t # ts) data)),
             To_csv (annotated_table (t # ts) data),
             Print ''Saved annotated data to generated/tracts_within_1mile_annotated.csv''] @
            fst (data_quality_checks (annotated_table (t # ts) data)),
            snd (data_quality_checks (annotated_table (t # ts) data))) \<and>
         \<not> list_ex is_quality_check before \<and> \<not> list_ex is_To_csv before \<and>
         \<not> list_ex is_Print_errors before \<and>
         length (filter is_Http_get before) = 1"
proof -
  let ?url = "api_url (take 2 (GEOID t)) (take 3 (drop 2 (GEOID t)))"
  let ?before = "[Print ''Reading generated/tracts_within_1mile.csv...'',
    Print_found (length (t # ts)), Print_tracts (map GEOID (t # ts)),
    Print ''Fetching Census B18105 data...'',
    Print_fetching (take 2 (GEOID t)) (take 3 (drop 2 (GEOID t))), Print_url ?url,
    Http_get ?url,
    Print_fetched (length (filter_to_tracts (map GEOID (t # ts)) data)),
    Print ''Calculating metrics...'']"
  have "main (t # ts) (Response status data) =
           (?before @ [Print ''Merging data...''] @
            missing_warning (annotated_table (t # ts) data) @
            summary_statistics (annotated_table (t # ts) data) @
            [Print ''=== First 3 rows of annotated data ==='',
             Print_head (take 3 (annotated_table (t # ts) data)),
             To_csv (annotated_table (t # ts) data),
             Print ''Saved annotated data to generated/tracts_within_1mile_annotated.csv''] @
            fst (data_quality_checks (annotated_table (t # ts) data)),
            snd (data_quality_checks (annotated_table (t # ts) data)))"
    using assms
    by (simp add: main_def fetch_b18105_data_def Let_def annotated_table_def split: prod.splits)
  moreover have "\<not> list_ex is_quality_check ?before" "\<not> list_ex is_To_csv ?before"
    "\<not> list_ex is_Print_errors ?before" "length (filter is_Http_get ?before) = 1"
    by simp_all
  ultimately show ?thesis by blast
qed

lemma takeWhile_until:
  assumes "\<not> list_ex P xs" "ys \<noteq> []" "P (hd ys)"
  shows "takeWhile (\<lambda>e. \<not> P e) (xs @ ys) = xs"
proof -
  from assms(1) have "\<forall>x\<in>set xs. \<not> P x" by (simp add: list_ex_iff)
  then have "takeWhile (\<lambda>e. \<not> P e) (xs @ ys) = xs @ takeWhile (\<lambda>e. \<not> P e) ys"
    by (simp add: takeWhile_append2)
  moreover from assms(2,3) have "takeWhile (\<lambda>e. \<not> P e) ys = []"
    by (cases ys) simp_all
  ultimately show ?thesis by simp
qed



text \<open>
  Claim C3, as the code has it. The order of a run that gets its data is: merge, warning
  about missing data, summary, first rows, writing the annotated table, and only then
  the data quality checks. In every run the table is written before the first event of
  the checks, so a run that ends with a validation failure has written the output file.
\<close>

theorem output_written_before_checks:
  "(tracts_df \<noteq> [] \<and> \<not> raise_for_status status \<longrightarrow>
      (\<exists>before. fst (main tracts_df (Response status data)) =
         before @ [Print ''Merging data...''] @
         missing_warning (annotated_table tracts_df data) @
         summary_statistics (annotated_table tracts_df data) @
         [Print ''=== First 3 rows of annotated data ==='',
          Print_head (take 3 (annotated_table tracts_df data)),
          To_csv (annotated_table tracts_df data),
          Print ''Saved annotated data to generated/tracts_within_1mile_annotated.csv''] @
         fst (data_quality_checks (annotated_table tracts_df data)))) \<and>
   (list_ex is_quality_check (fst (main tracts_df outcome)) \<longrightarrow>
      list_ex is_To_csv
        (takeWhile (\<lambda>e. \<not> is_quality_check e) (fst (main tracts_df outcome)))) \<and>
   (list_ex is_Print_errors (fst (main tracts_df outcome)) \<longrightarrow>
      snd (main tracts_df outcome) = Sys_exit 1 \<and>
      list_ex is_To_csv (fst (main tracts_df outcome)))"
proof -
  have shape: "tracts_df \<noteq> [] \<and> \<not> raise_for_status status \<longrightarrow>
      (\<exists>before. fst (main tracts_df (Response status data)) =
         before @ [Print ''Merging data...''] @
         missing_warning (annotated_table tracts_df data) @
         summary_statistics (annotated_table tracts_df data) @
         [Print ''=== First 3 rows of annotated data ==='',
          Print_head (take 3 (annotated_table tracts_df data)),
          To_csv (annotated_table tracts_df data),
          Print ''Saved annotated data to generated/tracts_within_1mile_annotated.csv''] @
         fst (data_quality_checks (annotated_table tracts_df data)))"
  proof (intro impI, elim conjE)
    assume "tracts_df \<noteq> []" and ok: "\<not> raise_for_status status"
    then obtain t ts where ts: "tracts_df = t # ts" by (cases tracts_df) auto
    from main_success [OF ok, of t ts data] show "\<exists>before. fst (main tracts_df (Response status data)) =
         before @ [Print ''Merging data...''] @
         missing_warning (annotated_table tracts_df data) @
         summary_statistics (annotated_table tracts_df data) @
         [Print ''=== First 3 rows of annotated data ==='',
          Print_head (take 3 (annotated_table tracts_df data)),
          To_csv (annotated_table tracts_df data),
          Print ''Saved annotated data to generated/tracts_within_1mile_annotated.csv''] @
         fst (data_quality_checks (annotated_table tracts_df data))"
      unfolding ts by force
  qed
  have order: "(list_ex is_quality_check (fst (main tracts_df outcome)) \<longrightarrow>
      list_ex is_To_csv
        (takeWhile (\<lambda>e. \<not> is_quality_check e) (fst (main tracts_df outcome)))) \<and>
   (list_ex is_Print_errors (fst (main tracts_df outcome)) \<longrightarrow>
      snd (main tracts_df outcome) = Sys_exit 1 \<and>
      list_ex is_To_csv (fst (main tracts_df outcome)))"
  proof (cases tracts_df)
    case Nil
    then show ?thesis by (simp add: main_no_tracts)
  next
    case (Cons t ts)
    show ?thesis
    proof (cases "http_failure outcome")
      case True
      from main_failure [OF True, of t ts] obtain before where
        m: "main (t # ts) outcome =
          (before @ [Http_get (api_url (take 2 (GEOID t)) (take 3 (drop 2 (GEOID t)))),
             Print_stderr_error_fetching], Sys_exit 1)"
        and b: "\<not> list_ex is_quality_check before" "\<not> list_ex is_Print_errors before"
        by blast
      from b show ?thesis by (simp add: Cons m)
    next
      case False
      then obtain status' data' where o: "outcome = Response status' data'"
        and ok: "\<not> raise_for_status status'"
        by (cases outcome) simp_all
      let ?A = "annotated_table (t # ts) data'"
      from main_success [OF ok, of t ts data'] obtain before where
        m: "main (t # ts) (Response status' data') =
           (before @ [Print ''Merging data...''] @ missing_warning ?A @ summary_statistics ?A @
            [Print ''=== First 3 rows of annotated data ==='', Print_head (take 3 ?A),
             To_csv ?A,
             Print ''Saved annotated data to generated/tracts_within_1mile_annotated.csv''] @
            fst (data_quality_checks ?A),
            snd (data_quality_checks ?A))"
        and b: "\<not> list_ex is_quality_check before"
        and e: "\<not> list_ex is_Print_errors before"
        by blast
      let ?pre = "before @ [Print ''Merging data...''] @ missing_warning ?A @
            summary_statistics ?A @
            [Print ''=== First 3 rows of annotated data ==='', Print_head (take 3 ?A),
             To_csv ?A,
             Print ''Saved annotated data to generated/tracts_within_1mile_annotated.csv'']"
      have events: "fst (main tracts_df outcome) = ?pre @ fst (data_quality_checks ?A)"
        by (simp add: Cons o m)
      have pre: "\<not> list_ex is_quality_check ?pre"
        using b by (simp add: missing_warning_events summary_statistics_events)
      have tw: "takeWhile (\<lambda>e. \<not> is_quality_check e) (?pre @ fst (data_quality_checks ?A)) = ?pre"
        using pre data_quality_checks_events(1,2) by (rule takeWhile_until)
      have csv: "list_ex is_To_csv ?pre" by simp
      have stop: "list_ex is_Print_errors (fst (main tracts_df outcome)) \<longrightarrow>
          snd (main tracts_df outcome) = Sys_exit 1"
      proof
        assume "list_ex is_Print_errors (fst (main tracts_df outcome))"
        then have "list_ex is_Print_errors (fst (data_quality_checks ?A))"
          unfolding events using e
          by (simp add: missing_warning_events summary_statistics_events)
        then have "data_quality_errors ?A \<noteq> []"
          by (simp add: data_quality_checks_events(5))
        then show "snd (main tracts_df outcome) = Sys_exit 1"
          by (simp add: Cons o m data_quality_checks_eq)
      qed
      have written: "list_ex is_To_csv (fst (main tracts_df outcome))"
        unfolding events using csv by (simp only: list_ex_append) simp
      from tw csv stop written show ?thesis unfolding events by simp
    qed
  qed
  from shape order show ?thesis by blast
qed

lemma status_200: "\<not> raise_for_status 200"
  by (simp add: raise_for_status_def)

lemma negative_run:
  "snd (main [example_tract] (Response 200 [negative_row])) = Sys_exit 1"
  "list_ex is_Print_errors (fst (main [example_tract] (Response 200 [negative_row])))"
  "list_ex is_To_csv (fst (main [example_tract] (Response 200 [negative_row])))"
  "list_ex is_quality_check (fst (main [example_tract] (Response 200 [negative_row])))"
proof -
  from main_success [OF status_200, of example_tract "[]" "[negative_row]"]
  obtain before where
    m: "main [example_tract] (Response 200 [negative_row]) =
      (before @ [Print ''Merging data...''] @
       missing_warning (annotated_table [example_tract] [negative_row]) @
       summary_statistics (annotated_table [example_tract] [negative_row]) @
       [Print ''=== First 3 rows of annotated data ==='',
        Print_head (take 3 (annotated_table [example_tract] [negative_row])),
        To_csv (annotated_table [example_tract] [negative_row]),
        Print ''Saved annotated data to generated/tracts_within_1mile_annotated.csv''] @
       fst (data_quality_checks (annotated_table [example_tract] [negative_row])),
       snd (data_quality_checks (annotated_table [example_tract] [negative_row])))"
    by blast
  have e: "data_quality_errors (annotated_table [example_tract] [negative_row]) \<noteq> []"
    by (simp add: negative_errors_list)
  show "snd (main [example_tract] (Response 200 [negative_row])) = Sys_exit 1"
    using e by (simp add: m data_quality_checks_eq)
  show "list_ex is_Print_errors (fst (main [example_tract] (Response 200 [negative_row])))"
    using e by (simp add: m data_quality_checks_eq)
  show "list_ex is_To_csv (fst (main [example_tract] (Response 200 [negative_row])))"
    by (simp add: m)
  show "list_ex is_quality_check (fst (main [example_tract] (Response 200 [negative_row])))"
    using e by (simp add: m data_quality_checks_eq)
qed

theorem output_written_before_checks_witness:
  "[example_tract] \<noteq> [] \<and> \<not> raise_for_status 200 \<and>
   list_ex is_quality_check (fst (main [example_tract] (Response 200 [negative_row]))) \<and>
   list_ex is_Print_errors (fst (main [example_tract] (Response 200 [negative_row]))) \<and>
   snd (main [example_tract] (Response 200 [negative_row])) = Sys_exit 1 \<and>
   list_ex is_To_csv (takeWhile (\<lambda>e. \<not> is_quality_check e)
     (fst (main [example_tract] (Response 200 [negative_row]))))"
  using output_written_before_checks
    [of "[example_tract]" 200 "[negative_row]" "Response 200 [negative_row]"]
    negative_run status_200
  by simp

text \<open>
  A run that ends with a validation failure and has written the annotated table: the
  response holds one row with negative counts.
\<close>

theorem validation_failure_after_write_counterexample:
  "snd (main [example_tract] (Response 200 [negative_row])) = Sys_exit 1 \<and>
   list_ex is_Print_errors (fst (main [example_tract] (Response 200 [negative_row]))) \<and>
   list_ex is_To_csv (fst (main [example_tract] (Response 200 [negative_row])))"
  by (simp add: negative_run)

lemma senior_excess_message:
  assumes "list_ex (\<lambda>r. pop_65plus_amb_diff r = Some 50 \<and> pop_65plus r = Some 40) df"
  shows "''ERROR: 65+ ambulatory difficulty exceeds 65+ population'' \<in>
    set (data_quality_errors df)"
proof -
  from assms have "list_ex (\<lambda>r. gt_col (pop_65plus_amb_diff r) (pop_65plus r)) df"
    by (force simp add: list_ex_iff)
  then show ?thesis
    by (simp add: data_quality_errors_unfold append_if_any_def)
qed

lemma main_end:
  assumes "tracts_df \<noteq> []" "\<not> raise_for_status status"
  shows "snd (main tracts_df (Response status data)) =
           snd (data_quality_checks (annotated_table tracts_df data))"
    and "data_quality_errors (annotated_table tracts_df data) \<noteq> [] \<Longrightarrow>
           last (fst (main tracts_df (Response status data))) =
             Print_errors (data_quality_errors (annotated_table tracts_df data))"
    and "list_ex is_To_csv (fst (main tracts_df (Response status data)))"
    and "missing_warning (annotated_table tracts_df data) \<noteq> [] \<Longrightarrow>
           list_ex is_Print_warning_missing (fst (main tracts_df (Response status data)))"
proof -
  from assms(1) obtain t ts where ts: "tracts_df = t # ts" by (cases tracts_df) auto
  let ?A = "annotated_table (t # ts) data"
  from main_success [OF assms(2), of t ts data] obtain before where
    m: "main (t # ts) (Response status data) =
           (before @ [Print ''Merging data...''] @ missing_warning ?A @ summary_statistics ?A @
            [Print ''=== First 3 rows of annotated data ==='', Print_head (take 3 ?A),
             To_csv ?A,
             Print ''Saved annotated data to generated/tracts_within_1mile_annotated.csv''] @
            fst (data_quality_checks ?A),
            snd (data_quality_checks ?A))"
    by blast
  show "snd (main tracts_df (Response status data)) =
           snd (data_quality_checks (annotated_table tracts_df data))"
    by (simp add: ts m)
  show "list_ex is_To_csv (fst (main tracts_df (Response status data)))"
    by (simp add: ts m)
  show "last (fst (main tracts_df (Response status data))) =
             Print_errors (data_quality_errors (annotated_table tracts_df data))"
    if "data_quality_errors (annotated_table tracts_df data) \<noteq> []"
    using that by (simp add: ts m data_quality_checks_eq)
  show "list_ex is_Print_warning_missing (fst (main tracts_df (Response status data)))"
    if "missing_warning (annotated_table tracts_df data) \<noteq> []"
  proof -
    from that have "list_ex is_Print_warning_missing (missing_warning ?A)"
      by (simp add: ts missing_warning_def Let_def split: if_splits)
    then show ?thesis by (simp add: ts m)
  qed
qed

text \<open>
  Claim C5. The error list is made of the message of every check, in the order of the
  checks, that some row of the whole table violates: no check is skipped because an
  earlier one failed, and a check looks at every row. When the list is not empty after
  the checks the run prints the whole list and ends with exit status 1; otherwise it
  reports success and returns. In particular a table with a row in which 50 people of
  65+ have the difficulty among 40 people of 65+ gets the message that the 65+ with the
  difficulty exceed the 65+ population, and the run ends with exit status 1.
\<close>

theorem checks_accumulate:
  "data_quality_errors df = map fst (filter (\<lambda>(message, cond). list_ex cond df) checks) \<and>
   data_quality_checks df =
     (if data_quality_errors df = []
      then ([Print ''=== Data Quality Checks ==='',
             Print ''All data quality checks passed!'',
             Print ''No errors found in the data''], Returned)
      else ([Print ''=== Data Quality Checks ==='', Print_errors (data_quality_errors df)],
            Sys_exit 1)) \<and>
   (tracts_df \<noteq> [] \<and> \<not> raise_for_status status \<and>
    data_quality_errors (annotated_table tracts_df data) \<noteq> [] \<longrightarrow>
      snd (main tracts_df (Response status data)) = Sys_exit 1 \<and>
      exit_status (snd (main tracts_df (Response status data))) = 1 \<and>
      last (fst (main tracts_df (Response status data))) =
        Print_errors (data_quality_errors (annotated_table tracts_df data))) \<and>
   (list_ex (\<lambda>r. pop_65plus_amb_diff r = Some 50 \<and> pop_65plus r = Some 40) df \<longrightarrow>
      ''ERROR: 65+ ambulatory difficulty exceeds 65+ population'' \<in>
        set (data_quality_errors df) \<and>
      snd (data_quality_checks df) = Sys_exit 1)"
proof -
  have run: "tracts_df \<noteq> [] \<and> \<not> raise_for_status status \<and>
    data_quality_errors (annotated_table tracts_df data) \<noteq> [] \<longrightarrow>
      snd (main tracts_df (Response status data)) = Sys_exit 1 \<and>
      exit_status (snd (main tracts_df (Response status data))) = 1 \<and>
      last (fst (main tracts_df (Response status data))) =
        Print_errors (data_quality_errors (annotated_table tracts_df data))"
    by (simp add: main_end data_quality_checks_eq)
  have example: "list_ex (\<lambda>r. pop_65plus_amb_diff r = Some 50 \<and> pop_65plus r = Some 40) df \<longrightarrow>
      ''ERROR: 65+ ambulatory difficulty exceeds 65+ population'' \<in>
        set (data_quality_errors df) \<and>
      snd (data_quality_checks df) = Sys_exit 1"
  proof
    assume a: "list_ex (\<lambda>r. pop_65plus_amb_diff r = Some 50 \<and> pop_65plus r = Some 40) df"
    from senior_excess_message [OF a]
    have i: "''ERROR: 65+ ambulatory difficulty exceeds 65+ population'' \<in>
        set (data_quality_errors df)" .
    then have "data_quality_errors df \<noteq> []" by auto
    then have "snd (data_quality_checks df) = Sys_exit 1"
      by (simp add: data_quality_checks_eq)
    with i show "''ERROR: 65+ ambulatory difficulty exceeds 65+ population'' \<in>
        set (data_quality_errors df) \<and>
      snd (data_quality_checks df) = Sys_exit 1" by simp
  qed
  from data_quality_errors_checks [of df] data_quality_checks_eq [of df] run example
  show ?thesis by blast
qed

theorem checks_accumulate_witness:
  "[example_tract] \<noteq> [] \<and> \<not> raise_for_status 200 \<and>
   list_ex (\<lambda>r. pop_65plus_amb_diff r = Some 50 \<and> pop_65plus r = Some 40)
     (annotated_table [example_tract] [senior_excess_row]) \<and>
   data_quality_errors (annotated_table [example_tract] [senior_excess_row]) =
     [''ERROR: 65+ ambulatory difficulty exceeds 65+ population'',
      ''ERROR: 65+ ambulatory difficulty percentage exceeds 100%''] \<and>
   snd (main [example_tract] (Response 200 [senior_excess_row])) = Sys_exit 1 \<and>
   exit_status (snd (main [example_tract] (Response 200 [senior_excess_row]))) = 1 \<and>
   last (fst (main [example_tract] (Response 200 [senior_excess_row]))) =
     Print_errors [''ERROR: 65+ ambulatory difficulty exceeds 65+ population'',
       ''ERROR: 65+ ambulatory difficulty percentage exceeds 100%'']"
proof -
  have l: "list_ex (\<lambda>r. pop_65plus_amb_diff r = Some 50 \<and> pop_65plus r = Some 40)
     (annotated_table [example_tract] [senior_excess_row])"
    by (simp add: senior_excess_table)
  from checks_accumulate [of "annotated_table [example_tract] [senior_excess_row]"
      "[example_tract]" 200 "[senior_excess_row]"]
    l status_200 senior_excess_errors_list
  show ?thesis by simp
qed

subsection \<open>Join completeness\<close>

lemma metrics_keys: "map metrics_GEOID (calculate_metrics df) = map row_GEOID df"
  by (simp add: calculate_metrics_def metrics_sel)

lemma distinct_metrics_keys:
  assumes "distinct (map row_GEOID (filter_to_tracts geoids data))"
  shows "distinct (map metrics_GEOID (calculate_metrics (filter_to_tracts geoids data)))"
  using assms by (simp add: metrics_keys)

lemma metrics_keys_subset:
  "metrics_GEOID ` set (calculate_metrics (filter_to_tracts geoids data)) \<subseteq> row_GEOID ` set data"
proof -
  have "metrics_GEOID ` set (calculate_metrics (filter_to_tracts geoids data)) =
      set (map metrics_GEOID (calculate_metrics (filter_to_tracts geoids data)))"
    by simp
  also have "\<dots> = row_GEOID ` set (filter_to_tracts geoids data)"
    by (simp only: metrics_keys set_map)
  also have "\<dots> \<subseteq> row_GEOID ` set data"
    by (auto simp add: filter_to_tracts_def)
  finally show ?thesis .
qed

lemma unmatched_fields:
  assumes "r = unmatched t"
  shows "total_pop_5plus r = None" "total_amb_diff r = None" "total_amb_diff_pct r = NaN"
    "pop_65plus r = None" "pop_65plus_amb_diff r = None" "pop_65plus_amb_diff_pct r = NaN"
    "input_columns r = t"
  using assms by (simp_all add: unmatched_def)

lemma append_if_any_filter:
  assumes "\<And>r. c r \<Longrightarrow> P r"
  shows "append_if_any c m (filter P df) = append_if_any c m df"
  using assms by (auto simp add: append_if_any_def list_ex_iff)

lemma errors_ignore_unmatched:
  "data_quality_errors (filter (\<lambda>r. r \<noteq> unmatched (input_columns r)) df) =
     data_quality_errors df"
proof -
  have c: "lt_0 (total_pop_5plus r) \<Longrightarrow> r \<noteq> unmatched (input_columns r)"
    "lt_0 (total_amb_diff r) \<Longrightarrow> r \<noteq> unmatched (input_columns r)"
    "lt_0 (pop_65plus r) \<Longrightarrow> r \<noteq> unmatched (input_columns r)"
    "lt_0 (pop_65plus_amb_diff r) \<Longrightarrow> r \<noteq> unmatched (input_columns r)"
    "gt_col (total_amb_diff r) (total_pop_5plus r) \<Longrightarrow> r \<noteq> unmatched (input_columns r)"
    "gt_col (pop_65plus_amb_diff r) (pop_65plus r) \<Longrightarrow> r \<noteq> unmatched (input_columns r)"
    "gt_col (pop_65plus r) (total_pop_5plus r) \<Longrightarrow> r \<noteq> unmatched (input_columns r)"
    "gt_100 (total_amb_diff_pct r) \<Longrightarrow> r \<noteq> unmatched (input_columns r)"
    "gt_100 (pop_65plus_amb_diff_pct r) \<Longrightarrow> r \<noteq> unmatched (input_columns r)"
    for r :: annotated_row
    using unmatched_fields [of r "input_columns r"] by auto
  show ?thesis
    by (simp only: data_quality_errors_unfold append_if_any_filter [of _ _ _ df, OF c(1)]
        append_if_any_filter [of _ _ _ df, OF c(2)] append_if_any_filter [of _ _ _ df, OF c(3)]
        append_if_any_filter [of _ _ _ df, OF c(4)] append_if_any_filter [of _ _ _ df, OF c(5)]
        append_if_any_filter [of _ _ _ df, OF c(6)] append_if_any_filter [of _ _ _ df, OF c(7)]
        append_if_any_filter [of _ _ _ df, OF c(8)] append_if_any_filter [of _ _ _ df, OF c(9)])
qed

lemma annotated_table_distinct:
  assumes "distinct (map row_GEOID (filter_to_tracts (map GEOID tracts_df) data))"
  shows "length (annotated_table tracts_df data) = length tracts_df"
    and "map input_columns (annotated_table tracts_df data) = tracts_df"
    and "i < length tracts_df \<Longrightarrow> GEOID (tracts_df ! i) \<notin> row_GEOID ` set data \<Longrightarrow>
           annotated_table tracts_df data ! i = unmatched (tracts_df ! i)"
proof -
  let ?ms = "calculate_metrics (filter_to_tracts (map GEOID tracts_df) data)"
  have d: "distinct (map metrics_GEOID ?ms)" using assms by (rule distinct_metrics_keys)
  show "length (annotated_table tracts_df data) = length tracts_df"
    unfolding annotated_table_def using d by (rule merge_left_distinct(1))
  show "map input_columns (annotated_table tracts_df data) = tracts_df"
    unfolding annotated_table_def using d by (rule merge_left_distinct(2))
  show "annotated_table tracts_df data ! i = unmatched (tracts_df ! i)"
    if i: "i < length tracts_df" and miss: "GEOID (tracts_df ! i) \<notin> row_GEOID ` set data"
  proof -
    from miss metrics_keys_subset [of "map GEOID tracts_df" data]
    have "GEOID (tracts_df ! i) \<notin> metrics_GEOID ` set ?ms" by blast
    with d i show ?thesis
      unfolding annotated_table_def by (rule merge_left_nth_miss)
  qed
qed

lemma missing_warning_miss:
  assumes "distinct (map row_GEOID (filter_to_tracts (map GEOID tracts_df) data))"
    and "list_ex (\<lambda>t. GEOID t \<notin> row_GEOID ` set data) tracts_df"
  shows "missing_warning (annotated_table tracts_df data) \<noteq> []"
proof -
  from assms(2) obtain i where i: "i < length tracts_df"
    and miss: "GEOID (tracts_df ! i) \<notin> row_GEOID ` set data"
    by (auto simp add: list_ex_iff in_set_conv_nth)
  let ?A = "annotated_table tracts_df data"
  from annotated_table_distinct(3) [OF assms(1) i miss]
  have u: "?A ! i = unmatched (tracts_df ! i)" .
  have "i < length ?A" using i annotated_table_distinct(1) [OF assms(1)] by simp
  then have "?A ! i \<in> set ?A" by simp
  moreover have "total_pop_5plus (?A ! i) = None" using u by (rule unmatched_fields(1))
  ultimately have "filter (\<lambda>r. total_pop_5plus r = None) ?A \<noteq> []"
    by (auto simp add: filter_empty_conv)
  then show ?thesis by (simp add: missing_warning_def Let_def)
qed

lemma example_metrics:
  "calculate_metrics_row example_row =
     \<lparr> total_pop_5plus = Some 1000, total_amb_diff = Some 150, total_amb_diff_pct = Finite 15,
       pop_65plus = Some 200, pop_65plus_amb_diff = Some 40,
       pop_65plus_amb_diff_pct = Finite 20, metrics_GEOID = ''06075010800'' \<rparr>"
  by (simp add: calculate_metrics_row_def example_GEOIDs example_row_sums percentage_Some
      rint_numeral)

lemma other_tract_GEOID: "GEOID other_tract = ''06075010900''"
  by (simp add: other_tract_def)

lemma two_tracts_table:
  "annotated_table [example_tract, other_tract] [example_row] =
     [\<lparr> total_pop_5plus = Some 1000, total_amb_diff = Some 150, total_amb_diff_pct = Finite 15,
        pop_65plus = Some 200, pop_65plus_amb_diff = Some 40,
        pop_65plus_amb_diff_pct = Finite 20, input_columns = example_tract \<rparr>,
      unmatched other_tract]"
  by (simp add: annotated_table_def filter_to_tracts_def calculate_metrics_def example_GEOIDs
      other_tract_GEOID example_metrics join_row_def matched_def)

lemma duplicated_rows_table:
  "annotated_table [example_tract] [example_row, example_row] =
     [\<lparr> total_pop_5plus = Some 1000, total_amb_diff = Some 150, total_amb_diff_pct = Finite 15,
        pop_65plus = Some 200, pop_65plus_amb_diff = Some 40,
        pop_65plus_amb_diff_pct = Finite 20, input_columns = example_tract \<rparr>,
      \<lparr> total_pop_5plus = Some 1000, total_amb_diff = Some 150, total_amb_diff_pct = Finite 15,
        pop_65plus = Some 200, pop_65plus_amb_diff = Some 40,
        pop_65plus_amb_diff_pct = Finite 20, input_columns = example_tract \<rparr>]"
  by (simp add: annotated_table_def filter_to_tracts_def calculate_metrics_def example_GEOIDs
      example_metrics join_row_def matched_def)

text \<open>
  Claim C4, as the code has it. When no two of the response's data rows for the tracts
  of the input table have the same identifier, the merged table has every row of the
  input table exactly once and in place: as many rows as the input table, the row of a
  tract that the response has no row for with the six derived columns null. Such a miss
  is not fatal: the run prints the warning and goes on to write the table, it ends as
  the data quality checks decide, and rows without derived values raise none of their
  messages.
\<close>

theorem left_join_keeps_every_tract:
  assumes "distinct (map row_GEOID (filter_to_tracts (map GEOID tracts_df) data))"
  shows "length (annotated_table tracts_df data) = length tracts_df \<and>
         map input_columns (annotated_table tracts_df data) = tracts_df \<and>
         (\<forall>i<length tracts_df. GEOID (tracts_df ! i) \<notin> row_GEOID ` set data \<longrightarrow>
            annotated_table tracts_df data ! i = unmatched (tracts_df ! i)) \<and>
         (tracts_df \<noteq> [] \<and> \<not> raise_for_status status \<longrightarrow>
            (list_ex (\<lambda>t. GEOID t \<notin> row_GEOID ` set data) tracts_df \<longrightarrow>
               list_ex is_Print_warning_missing (fst (main tracts_df (Response status data)))) \<and>
            list_ex is_To_csv (fst (main tracts_df (Response status data))) \<and>
            snd (main tracts_df (Response status data)) =
              snd (data_quality_checks (annotated_table tracts_df data))) \<and>
         data_quality_errors (annotated_table tracts_df data) =
           data_quality_errors (filter (\<lambda>r. r \<noteq> unmatched (input_columns r))
             (annotated_table tracts_df data))"
proof -
  note a = annotated_table_distinct [OF assms]
  have miss: "\<forall>i<length tracts_df. GEOID (tracts_df ! i) \<notin> row_GEOID ` set data \<longrightarrow>
            annotated_table tracts_df data ! i = unmatched (tracts_df ! i)"
    using a(3) by blast
  have run: "tracts_df \<noteq> [] \<and> \<not> raise_for_status status \<longrightarrow>
            (list_ex (\<lambda>t. GEOID t \<notin> row_GEOID ` set data) tracts_df \<longrightarrow>
               list_ex is_Print_warning_missing (fst (main tracts_df (Response status data)))) \<and>
            list_ex is_To_csv (fst (main tracts_df (Response status data))) \<and>
            snd (main tracts_df (Response status data)) =
              snd (data_quality_checks (annotated_table tracts_df data))"
    using missing_warning_miss [OF assms]
    by (simp add: main_end)
  from a(1) a(2) miss run
    errors_ignore_unmatched [of "annotated_table tracts_df data"]
  show ?thesis by simp
qed

theorem left_join_keeps_every_tract_witness:
  "distinct (map row_GEOID
     (filter_to_tracts (map GEOID [example_tract, other_tract]) [example_row])) \<and>
   [example_tract, other_tract] \<noteq> [] \<and> \<not> raise_for_status 200 \<and>
   list_ex (\<lambda>t. GEOID t \<notin> row_GEOID ` set [example_row]) [example_tract, other_tract] \<and>
   length (annotated_table [example_tract, other_tract] [example_row]) = 2 \<and>
   map input_columns (annotated_table [example_tract, other_tract] [example_row]) =
     [example_tract, other_tract] \<and>
   annotated_table [example_tract, other_tract] [example_row] ! 1 = unmatched other_tract \<and>
   list_ex is_Print_warning_missing
     (fst (main [example_tract, other_tract] (Response 200 [example_row]))) \<and>
   list_ex is_To_csv (fst (main [example_tract, other_tract] (Response 200 [example_row]))) \<and>
   snd (main [example_tract, other_tract] (Response 200 [example_row])) = Returned"
proof -
  have d: "distinct (map row_GEOID
     (filter_to_tracts (map GEOID [example_tract, other_tract]) [example_row]))"
    by (simp add: filter_to_tracts_def)
  have miss: "list_ex (\<lambda>t. GEOID t \<notin> row_GEOID ` set [example_row])
      [example_tract, other_tract]"
    by (simp add: example_GEOIDs other_tract_GEOID)
  have e: "data_quality_errors (annotated_table [example_tract, other_tract] [example_row]) = []"
    by (simp add: two_tracts_table data_quality_errors_unfold append_if_any_def unmatched_def)
  from left_join_keeps_every_tract [OF d, of 200] d miss status_200 e
  show ?thesis
    by (simp add: example_GEOIDs other_tract_GEOID data_quality_checks_eq)
qed

text \<open>
  A response with the row of a tract twice gives the tract twice in the merged table:
  one input row, two output rows.
\<close>

theorem duplicated_rows_counterexample:
  "length [example_tract] = 1 \<and>
   length (annotated_table [example_tract] [example_row, example_row]) = 2"
  by (simp add: duplicated_rows_table)

end
